theory Spec2Isabelle
  imports Complex_Main "HOL-Library.Word"
begin

unbundle bit_operations_syntax

section \<open>Data model of the segment loader\<close>

text \<open>
  JavaScript numbers that carry times (seconds or milliseconds) are modelled as
  \<^typ>\<open>real\<close>, indices, timeline ids and media-sequence numbers as \<^typ>\<open>int\<close>.
  A \<open>TimeRanges\<close> object is the list of its \<open>(start, end)\<close> pairs.
\<close>

type_synonym timeRanges = "(real \<times> real) list"

datatype loaderType = MainLoader | AudioLoader | OtherLoader

datatype loaderState = INIT | READY | WAITING | APPENDING | DISPOSED

record timelineChange =
  tc_from :: int
  tc_to :: int

text \<open>
  Modelled from the spec: the timeline change controller (its class is not among the
  sources). It keeps, per loader type, the last committed and the pending timeline
  transition; \<open>lastTimelineChange({type})\<close> and \<open>pendingTimelineChange({type})\<close> read
  them (\<open>undefined\<close> is \<open>None\<close>), the same calls with \<open>from\<close> and \<open>to\<close> record one,
  and \<open>clearPendingTimelineChange(type)\<close> forgets the pending one.
\<close>

record timelineChangeController =
  lastTimelineChange :: "loaderType \<Rightarrow> timelineChange option"
  pendingTimelineChange :: "loaderType \<Rightarrow> timelineChange option"


definition setPendingTimelineChange ::
  "loaderType \<Rightarrow> int \<Rightarrow> int \<Rightarrow> timelineChangeController \<Rightarrow> timelineChangeController" where
  "setPendingTimelineChange ty f t c =
     c\<lparr>pendingTimelineChange := (pendingTimelineChange c)(ty := Some \<lparr>tc_from = f, tc_to = t\<rparr>)\<rparr>"

definition clearPendingTimelineChange ::
  "loaderType \<Rightarrow> timelineChangeController \<Rightarrow> timelineChangeController" where
  "clearPendingTimelineChange ty c =
     c\<lparr>pendingTimelineChange := (pendingTimelineChange c)(ty := None)\<rparr>"

section \<open>Pure helpers of segment-loader.js\<close>

text \<open>
  \<open>safeBackBufferTrimTime(seekable, currentTime, targetDuration)\<close>; the constant
  \<open>Config.BACK_BUFFER_LENGTH\<close> lives in a module that is not among the sources and is
  the first parameter here.
\<close>

definition safeBackBufferTrimTime :: "real \<Rightarrow> timeRanges \<Rightarrow> real \<Rightarrow> real \<Rightarrow> real" where
  "safeBackBufferTrimTime BACK_BUFFER_LENGTH seekable currentTime targetDuration =
     (let trimTime = currentTime - BACK_BUFFER_LENGTH;
          trimTime = (case seekable of [] \<Rightarrow> trimTime
                      | r # _ \<Rightarrow> max trimTime (fst r));
          maxTrimTime = currentTime - targetDuration
      in min maxTrimTime trimTime)"


section \<open>The segment loader's state\<close>

text \<open>
  A member that the source names with a trailing underscore (\<open>abort_\<close>,
  \<open>pendingSegment_\<close>) is written with a prime after it here, since Isabelle reserves
  the names that end in an underscore.
\<close>

type_synonym byte = "8 word"

datatype mediaType = Audio | Video

record trackInfo =
  ti_isFmp4 :: bool
  ti_hasVideo :: bool
  ti_hasAudio :: bool
  ti_audioCodec :: "string option"
  ti_videoCodec :: "string option"
  ti_isMuxed :: bool

text \<open>
  An initialization section (\<open>segment.map\<close>). \<open>map_id\<close> is the value of
  \<open>initSegmentId(map)\<close>, a function of bin-utils that is not among the sources;
  \<open>map_bytes\<close> is \<open>None\<close> while the bytes are not loaded.
\<close>

record initMap =
  map_id :: string
  map_resolvedUri :: string
  map_bytes :: "byte list option"

record segment =
  seg_resolvedUri :: string
  seg_timeline :: int
  seg_duration :: real
  seg_start :: "real option"
  seg_end :: "real option"
  seg_map :: "initMap option"

text \<open>
  A playlist object. JavaScript compares playlists by reference
  (\<open>playlistOfLastInitSegment_[type] !== segmentInfo.playlist\<close>); \<open>pl_ref\<close> is that
  identity.
\<close>

record mediaPlaylist =
  pl_ref :: nat
  pl_uri :: string
  pl_mediaSequence :: int
  pl_targetDuration :: "real option"
  pl_endList :: bool
  pl_segments :: "segment list"
  pl_syncInfo :: "(int \<times> real) option"

record syncPoint =
  sp_segmentIndex :: int
  sp_time :: real

text \<open>
  The pending segment request (\<open>segmentInfo\<close>), as \<open>generateSegmentInfo_\<close> builds it
  and the callbacks enrich it. \<open>si_abortRequests\<close> is the handle of the function that
  cancels the network requests, \<open>None\<close> while the property is not set; \<open>si_segment\<close>
  is \<open>None\<close> once a playlist refresh has replaced it by a missing array element.
\<close>

record segmentInfo =
  si_requestId :: string
  si_uri :: string
  si_mediaIndex :: int
  si_isSyncRequest :: bool
  si_startOfSegment :: "real option"
  si_playlist :: mediaPlaylist
  si_timestampOffset :: "real option"
  si_timeline :: int
  si_duration :: real
  si_segment :: "segment option"
  si_byteLength :: int
  si_audioAppendStart :: "real option"
  si_audioInitDataAppended :: bool
  si_videoInitDataAppended :: bool
  si_segmentInfoInitDataApplied :: bool
  si_changedTimestampOffset :: bool
  si_isFmp4 :: bool
  si_timingInfoStart :: "real option"
  si_hasAppendedData :: bool
  si_trackInfo :: "trackInfo option"
  si_endOfAllRequests :: real
  si_abortRequests :: "nat option"

text \<open>Bound functions waiting in the call, load and metadata queues.\<close>

datatype queuedCall =
  QueuedSegmentRequestFinished | QueuedLoadSegment | QueuedCaptions | QueuedId3

text \<open>
  What the loader does to its collaborators (events it triggers, timers, the network
  request, the media buffer sink, the transmuxer, the synchronization controller), in
  the order of the calls.
\<close>

datatype effect =
    Trigger string
  | AbortRequests nat
  | ClearTimeout nat
  | SetTimeout nat
  | RemoveAudio real real
  | RemoveVideo real real
  | TransmuxerReset
  | TransmuxerPost string
  | SaveExpiredSegmentInfo mediaPlaylist mediaPlaylist
  | SaveSegmentTimingInfo segmentInfo bool
  | AppendBuffer mediaType "byte list"

record segmentLoader =
  state :: loaderState
  loaderType_' :: loaderType
  mediaIndex :: "int option"
  playlist_' :: "mediaPlaylist option"
  pendingSegment_' :: "segmentInfo option"
  currentTimeline_' :: int
  checkBufferTimeout_' :: "nat option"
  callQueue_' :: "queuedCall list"
  loadQueue_' :: "queuedCall list"
  metadataQueue_id3 :: "queuedCall list"
  metadataQueue_caption :: "queuedCall list"
  timelineChangeController_' :: timelineChangeController
  audioDisabled_' :: bool
  currentMediaInfo_' :: "trackInfo option"
  handlePartialData_' :: bool
  hasTransmuxer_' :: bool
  fetchAtBuffer_' :: bool
  syncPoint_' :: "syncPoint option"
  isPendingTimestampOffset_' :: bool
  ended_' :: bool
  appendInitSegment_audio :: bool
  appendInitSegment_video :: bool
  playlistOfLastInitSegment_audio :: "nat option"
  playlistOfLastInitSegment_video :: "nat option"
  activeInitSegmentId_' :: "string option"
  initSegments_' :: "string \<Rightarrow> initMap option"
  videoTimestampOffset :: real
  audioTimestampOffset :: real
  throughput_rate :: real
  throughput_count :: nat
  effects :: "effect list"

text \<open>
  What the loader reads from its surroundings during one call: the getters passed in
  the settings, the media source, the sink's buffered ranges, the clock, and the functions
  of modules that are not among the sources.
\<close>

record env =
  currentTime_' :: real
  duration_' :: real
  seekable_' :: timeRanges
  hasPlayed_' :: bool
  seeking_' :: bool
  goalBufferLength_' :: real
  sourceUpdaterReady :: bool
  readyState :: string
  audioBuffered :: timeRanges
  videoBuffered :: timeRanges
  getMediaInfoForTime :: "mediaPlaylist \<Rightarrow> real \<Rightarrow> int \<Rightarrow> real \<Rightarrow> int \<times> real"
  freshRequestId :: string
  freshTimerId :: nat
  dateNow :: real

section \<open>Operations of the segment loader\<close>

datatype jsError = TypeError

text \<open>Reading a JavaScript array: \<open>undefined\<close> outside the bounds.\<close>

definition nth_opt :: "'a list \<Rightarrow> int \<Rightarrow> 'a option" where
  "nth_opt xs i = (if 0 \<le> i \<and> i < int (length xs) then Some (xs ! nat i) else None)"

definition trigger :: "string \<Rightarrow> segmentLoader \<Rightarrow> segmentLoader" where
  "trigger ev l = l\<lparr>effects := effects l @ [Trigger ev]\<rparr>"

text \<open>The setter of \<open>state\<close>: a change of value triggers \<open>statechange\<close>.\<close>

definition setState :: "loaderState \<Rightarrow> segmentLoader \<Rightarrow> segmentLoader" where
  "setState newState l =
     (if newState \<noteq> state l then trigger ''statechange'' (l\<lparr>state := newState\<rparr>) else l)"

definition paused :: "segmentLoader \<Rightarrow> bool" where
  "paused l = (checkBufferTimeout_' l = None)"

definition clearCheckBufferTimeout :: "segmentLoader \<Rightarrow> segmentLoader" where
  "clearCheckBufferTimeout l =
     (case checkBufferTimeout_' l of
        None \<Rightarrow> l
      | Some t \<Rightarrow> if t \<noteq> 0 then l\<lparr>effects := effects l @ [ClearTimeout t]\<rparr> else l)"


definition monitorBuffer_' :: "env \<Rightarrow> segmentLoader \<Rightarrow> segmentLoader" where
  "monitorBuffer_' e l =
     (let l = clearCheckBufferTimeout l
      in l\<lparr>checkBufferTimeout_' := Some (freshTimerId e),
            effects := effects l @ [SetTimeout (freshTimerId e)]\<rparr>)"

definition abort_' :: "segmentLoader \<Rightarrow> segmentLoader" where
  "abort_' l =
     (let l = (case pendingSegment_' l of
                 None \<Rightarrow> l
               | Some segmentInfo \<Rightarrow>
                   (case si_abortRequests segmentInfo of
                      None \<Rightarrow> l
                    | Some h \<Rightarrow> l\<lparr>effects := effects l @ [AbortRequests h]\<rparr>))
      in l\<lparr>pendingSegment_' := None,
            callQueue_' := [],
            loadQueue_' := [],
            metadataQueue_id3 := [],
            metadataQueue_caption := [],
            timelineChangeController_' :=
              clearPendingTimelineChange (loaderType_' l) (timelineChangeController_' l)\<rparr>)"

definition abort :: "env \<Rightarrow> segmentLoader \<Rightarrow> segmentLoader" where
  "abort e l =
     (if state l \<noteq> WAITING then l\<lparr>pendingSegment_' := None\<rparr>
      else
        let l = abort_' l;
            l = setState READY l
        in if \<not> paused l then monitorBuffer_' e l else l)"

definition resyncLoader :: "env \<Rightarrow> segmentLoader \<Rightarrow> segmentLoader" where
  "resyncLoader e l =
     (let l = (if hasTransmuxer_' l then l\<lparr>effects := effects l @ [TransmuxerReset]\<rparr> else l);
          l = l\<lparr>mediaIndex := None,
                syncPoint_' := None,
                isPendingTimestampOffset_' := False,
                callQueue_' := [],
                loadQueue_' := [],
                metadataQueue_id3 := [],
                metadataQueue_caption := []\<rparr>;
          l = abort e l
      in if hasTransmuxer_' l
         then l\<lparr>effects := effects l @ [TransmuxerPost ''clearParsedMp4Captions'']\<rparr>
         else l)"

definition resetLoader :: "env \<Rightarrow> segmentLoader \<Rightarrow> segmentLoader" where
  "resetLoader e l = resyncLoader e (l\<lparr>fetchAtBuffer_' := False\<rparr>)"

text \<open>
  \<open>remove(start, end)\<close>; \<open>None\<close> as end stands for \<open>Infinity\<close>, which the source
  replaces by the duration. The GOP buffer and the text-track cues it also trims are
  outside this model.
\<close>

definition remove :: "env \<Rightarrow> real \<Rightarrow> real option \<Rightarrow> segmentLoader \<Rightarrow> segmentLoader" where
  "remove e start endOpt l =
     (let end = (case endOpt of None \<Rightarrow> duration_' e | Some x \<Rightarrow> x)
      in case currentMediaInfo_' l of
           None \<Rightarrow> l
         | Some info \<Rightarrow>
             let l = (if \<not> audioDisabled_' l
                      then l\<lparr>effects := effects l @ [RemoveAudio start end]\<rparr> else l)
             in if loaderType_' l = MainLoader \<and> ti_hasVideo info
                then l\<lparr>effects := effects l @ [RemoveVideo start end]\<rparr> else l)"

definition resetEverything :: "env \<Rightarrow> segmentLoader \<Rightarrow> segmentLoader" where
  "resetEverything e l =
     (let l = l\<lparr>ended_' := False, appendInitSegment_audio := True, appendInitSegment_video := True\<rparr>;
          l = resetLoader e l;
          l = remove e 0 None l
      in if hasTransmuxer_' l
         then l\<lparr>effects := effects l @ [TransmuxerPost ''clearAllMp4Captions'']\<rparr>
         else l)"

definition couldBeginLoading_' :: "segmentLoader \<Rightarrow> bool" where
  "couldBeginLoading_' l = (playlist_' l \<noteq> None \<and> \<not> paused l)"

definition init_' :: "env \<Rightarrow> segmentLoader \<Rightarrow> segmentLoader" where
  "init_' e l = monitorBuffer_' e (resetEverything e (setState READY l))"

text \<open>
  \<open>playlist(newPlaylist, options)\<close>: sets the playlist. The request options it stores
  are outside this model.
\<close>

definition playlist :: "env \<Rightarrow> mediaPlaylist option \<Rightarrow> segmentLoader \<Rightarrow> segmentLoader" where
  "playlist e newPlaylistArg l =
     (case newPlaylistArg of
        None \<Rightarrow> l
      | Some newPlaylist0 \<Rightarrow>
          let oldPlaylist = playlist_' l;
              segmentInfo = pendingSegment_' l;
              newPlaylist =
                (if state l = INIT
                 then newPlaylist0\<lparr>pl_syncInfo := Some (pl_mediaSequence newPlaylist0, 0)\<rparr>
                 else newPlaylist0);
              l = l\<lparr>playlist_' := Some newPlaylist\<rparr>;
              l = trigger ''syncinfoupdate'' l
          in if state l = INIT \<and> couldBeginLoading_' l then init_' e l
             else if (case oldPlaylist of None \<Rightarrow> True
                      | Some old \<Rightarrow> pl_uri old \<noteq> pl_uri newPlaylist)
             then
               let l = (if mediaIndex l \<noteq> None \<or> handlePartialData_' l
                        then resyncLoader e l else l)
               in trigger ''playlistupdate'' (l\<lparr>currentMediaInfo_' := None\<rparr>)
             else
               let mediaSequenceDiff =
                     pl_mediaSequence newPlaylist - pl_mediaSequence (the oldPlaylist);
                   l = (case mediaIndex l of
                          None \<Rightarrow> l
                        | Some i \<Rightarrow> l\<lparr>mediaIndex := Some (i - mediaSequenceDiff)\<rparr>);
                   l = (case segmentInfo of
                          None \<Rightarrow> l
                        | Some si \<Rightarrow>
                            let i = si_mediaIndex si - mediaSequenceDiff;
                                si = si\<lparr>si_mediaIndex := i\<rparr>;
                                si = (if i \<ge> 0
                                      then si\<lparr>si_segment := nth_opt (pl_segments newPlaylist) i\<rparr>
                                      else si)
                            in l\<lparr>pendingSegment_' := Some si\<rparr>)
               in l\<lparr>effects := effects l @ [SaveExpiredSegmentInfo (the oldPlaylist) newPlaylist]\<rparr>)"



text \<open>
  \<open>trimBackBuffer_\<close>: the removal it asks for, if any. A missing or zero target
  duration counts as 10 (\<open>targetDuration || 10\<close>); without a playlist the source
  throws.
\<close>

definition trimBackBuffer_' :: "real \<Rightarrow> env \<Rightarrow> segmentLoader \<Rightarrow> jsError + segmentLoader" where
  "trimBackBuffer_' BACK_BUFFER_LENGTH e l =
     (case playlist_' l of
        None \<Rightarrow> Inl TypeError
      | Some p \<Rightarrow>
          let targetDuration = (case pl_targetDuration p of
                                  None \<Rightarrow> 10
                                | Some d \<Rightarrow> if d = 0 then 10 else d);
              removeToTime = safeBackBufferTrimTime BACK_BUFFER_LENGTH (seekable_' e)
                               (currentTime_' e) targetDuration
          in if removeToTime > 0 then Inr (remove e 0 (Some removeToTime) l) else Inr l)"








text \<open>
  \<open>getSyncSegmentCandidate_\<close>, \<open>generateSegmentInfo_\<close> and \<open>checkBuffer_\<close>.
  The GOP alignment hint of the segment info comes from a module that is not among the
  sources and is left out of the record. In \<open>checkBuffer_\<close> the test
  \<open>bufferedTime >= this.goalBufferLength_()\<close> only logs: the \<open>return null\<close> under it
  is commented out in the source, so the model has no branch for it.
\<close>

definition getSyncSegmentCandidate_' :: "segmentLoader \<Rightarrow> mediaPlaylist \<Rightarrow> int" where
  "getSyncSegmentCandidate_' l p =
     (if currentTimeline_' l = - 1 then 0
      else
        let segmentIndexArray =
              filter (\<lambda>(timeline, segmentIndex). timeline = currentTimeline_' l)
                (zip (map seg_timeline (pl_segments p)) [0..<length (pl_segments p)])
        in if segmentIndexArray \<noteq> []
           then int (snd (segmentIndexArray ! (min (length segmentIndexArray - 1) 1)))
           else max (int (length (pl_segments p)) - 1) 0)"

definition generateSegmentInfo_' ::
  "env \<Rightarrow> segmentLoader \<Rightarrow> mediaPlaylist \<Rightarrow> int \<Rightarrow> real option \<Rightarrow> bool \<Rightarrow> segmentInfo option" where
  "generateSegmentInfo_' e l p mediaIndexArg startOfSegment isSyncRequest =
     (case nth_opt (pl_segments p) mediaIndexArg of
        None \<Rightarrow> None
      | Some segment \<Rightarrow>
          Some \<lparr>si_requestId = freshRequestId e,
                si_uri = seg_resolvedUri segment,
                si_mediaIndex = mediaIndexArg,
                si_isSyncRequest = isSyncRequest,
                si_startOfSegment = startOfSegment,
                si_playlist = p,
                si_timestampOffset = None,
                si_timeline = seg_timeline segment,
                si_duration = seg_duration segment,
                si_segment = Some segment,
                si_byteLength = 0,
                si_audioAppendStart =
                  (if audioBuffered e \<noteq> []
                   then Some (snd (last (audioBuffered e)) - audioTimestampOffset l)
                   else None),
                si_audioInitDataAppended = False,
                si_videoInitDataAppended = False,
                si_segmentInfoInitDataApplied = False,
                si_changedTimestampOffset = False,
                si_isFmp4 = False,
                si_timingInfoStart = None,
                si_hasAppendedData = False,
                si_trackInfo = None,
                si_endOfAllRequests = 0,
                si_abortRequests = None\<rparr>)"

definition checkBuffer_' ::
  "env \<Rightarrow> segmentLoader \<Rightarrow> timeRanges \<Rightarrow> mediaPlaylist \<Rightarrow> int option \<Rightarrow> bool \<Rightarrow> real \<Rightarrow>
     syncPoint option \<Rightarrow> segmentInfo option" where
  "checkBuffer_' e l buffered p currentMediaIndex hasPlayed currentTime syncPoint =
     (let lastBufferedEnd = (if buffered \<noteq> [] then snd (last buffered) else 0);
          bufferedTime = max 0 (lastBufferedEnd - currentTime)
      in if pl_segments p = [] then None
         else if \<not> hasPlayed \<and> bufferedTime \<ge> 1 then None
         else
           let (nextMediaIndex, startOfSegment, isSyncRequest) =
                 (case syncPoint of
                    None \<Rightarrow> (getSyncSegmentCandidate_' l p, None, True)
                  | Some sp \<Rightarrow>
                      (case currentMediaIndex of
                         Some i \<Rightarrow>
                           (i + 1,
                            (case nth_opt (pl_segments p) i of
                               None \<Rightarrow> Some lastBufferedEnd
                             | Some segment \<Rightarrow>
                                 (case seg_end segment of
                                    None \<Rightarrow> Some lastBufferedEnd
                                  | Some en \<Rightarrow> if en \<noteq> 0 then Some en else Some lastBufferedEnd)),
                            False)
                       | None \<Rightarrow>
                           let mediaSourceInfo =
                                 getMediaInfoForTime e p
                                   (if fetchAtBuffer_' l then lastBufferedEnd else currentTime)
                                   (sp_segmentIndex sp) (sp_time sp)
                           in (fst mediaSourceInfo, Some (snd mediaSourceInfo), False)))
           in (case generateSegmentInfo_' e l p nextMediaIndex startOfSegment isSyncRequest of
                 None \<Rightarrow> None
               | Some segmentInfo \<Rightarrow>
                   if (case playlist_' l of
                         None \<Rightarrow> False
                       | Some own \<Rightarrow> si_mediaIndex segmentInfo = int (length (pl_segments own)) - 1)
                      \<and> readyState e = ''ended'' \<and> \<not> seeking_' e
                   then None
                   else Some segmentInfo))"

text \<open>The state the constructor leaves a loader in.\<close>

definition newSegmentLoader :: "loaderType \<Rightarrow> timelineChangeController \<Rightarrow> segmentLoader" where
  "newSegmentLoader ty c =
     \<lparr>state = INIT, loaderType_' = ty, mediaIndex = None, playlist_' = None,
      pendingSegment_' = None, currentTimeline_' = - 1, checkBufferTimeout_' = None,
      callQueue_' = [], loadQueue_' = [], metadataQueue_id3 = [], metadataQueue_caption = [],
      timelineChangeController_' = c, audioDisabled_' = False, currentMediaInfo_' = None,
      handlePartialData_' = False, hasTransmuxer_' = True, fetchAtBuffer_' = False,
      syncPoint_' = Some \<lparr>sp_segmentIndex = 0, sp_time = 0\<rparr>,
      isPendingTimestampOffset_' = False, ended_' = False,
      appendInitSegment_audio = True, appendInitSegment_video = True,
      playlistOfLastInitSegment_audio = None, playlistOfLastInitSegment_video = None,
      activeInitSegmentId_' = None, initSegments_' = (\<lambda>id. None),
      videoTimestampOffset = 0, audioTimestampOffset = 0,
      throughput_rate = 0, throughput_count = 0, effects = []\<rparr>"

definition newTimelineChangeController :: timelineChangeController where
  "newTimelineChangeController =
     \<lparr>lastTimelineChange = (\<lambda>ty. None), pendingTimelineChange = (\<lambda>ty. None)\<rparr>"

section \<open>Sample inputs\<close>

text \<open>
  A playlist of five six-second segments on timeline 0, a player at 10 seconds that has
  played, with 16 seconds buffered, and a request for the third of the segments.
\<close>

definition sampleSegment :: "nat \<Rightarrow> segment" where
  "sampleSegment n =
     \<lparr>seg_resolvedUri = ''segment.m4s'', seg_timeline = 0, seg_duration = 6,
      seg_start = None, seg_end = None, seg_map = None\<rparr>"

definition samplePlaylist :: mediaPlaylist where
  "samplePlaylist =
     \<lparr>pl_ref = 1, pl_uri = ''media.mpd'', pl_mediaSequence = 0, pl_targetDuration = Some 6,
      pl_endList = False, pl_segments = map sampleSegment [0, 1, 2, 3, 4], pl_syncInfo = None\<rparr>"

definition sampleEnv :: env where
  "sampleEnv =
     \<lparr>currentTime_' = 10, duration_' = 30, seekable_' = [(0, 30)], hasPlayed_' = True,
      seeking_' = False, goalBufferLength_' = 6, sourceUpdaterReady = True,
      readyState = ''open'', audioBuffered = [(0, 16)], videoBuffered = [(0, 16)],
      getMediaInfoForTime = (\<lambda>p t i s. (\<lfloor>t / 6\<rfloor>, 6 * real_of_int \<lfloor>t / 6\<rfloor>)),
      freshRequestId = ''segment-loader-1'', freshTimerId = 7, dateNow = 1001\<rparr>"

definition sampleSegmentInfo :: segmentInfo where
  "sampleSegmentInfo =
     \<lparr>si_requestId = ''segment-loader-1'', si_uri = ''segment.m4s'', si_mediaIndex = 2,
      si_isSyncRequest = False, si_startOfSegment = Some 12, si_playlist = samplePlaylist,
      si_timestampOffset = None, si_timeline = 0, si_duration = 6,
      si_segment = Some (sampleSegment 2), si_byteLength = 1000, si_audioAppendStart = None,
      si_audioInitDataAppended = False, si_videoInitDataAppended = False,
      si_segmentInfoInitDataApplied = False, si_changedTimestampOffset = False,
      si_isFmp4 = True, si_timingInfoStart = None, si_hasAppendedData = False,
      si_trackInfo = None, si_endOfAllRequests = 1000, si_abortRequests = Some 3\<rparr>"

text \<open>
  An audio loader at the start of the stream: no timeline yet (\<open>-1\<close>), waiting for
  the request of a segment on timeline 0.
\<close>

definition bootstrapAudioLoader :: "timelineChangeController \<Rightarrow> segmentLoader" where
  "bootstrapAudioLoader c =
     (newSegmentLoader AudioLoader c)\<lparr>state := WAITING, pendingSegment_' := Some sampleSegmentInfo\<rparr>"


text \<open>
  A main loader that walks the sample playlist: the segment at index 1 was appended
  last. \<open>readyLoader\<close> is idle, \<open>waitingLoader\<close> waits for the request of the segment
  at index 2.
\<close>

definition readyLoader :: segmentLoader where
  "readyLoader =
     (newSegmentLoader MainLoader newTimelineChangeController)
       \<lparr>state := READY, playlist_' := Some samplePlaylist, mediaIndex := Some 1,
        currentTimeline_' := 0, checkBufferTimeout_' := Some 7\<rparr>"

definition waitingLoader :: segmentLoader where
  "waitingLoader = readyLoader\<lparr>state := WAITING, pendingSegment_' := Some sampleSegmentInfo\<rparr>"

section \<open>Appending: initialization segments\<close>






















section \<open>The chunked fragment transport (audio-segment-fetch.js)\<close>

subsection \<open>Typed arrays\<close>

text \<open>
  A \<open>Uint8Array\<close> is a view of an \<open>ArrayBuffer\<close>: the buffer's bytes, the offset of
  the view and its length. \<open>subarray\<close> makes a view of the same buffer, \<open>.buffer\<close>
  gives the whole buffer back, and \<open>new Uint8Array(view)\<close> copies the bytes of the view
  into a buffer of their own.
\<close>

record u8array =
  backing :: "byte list"
  byteOffset :: nat
  alength :: nat

definition elems :: "u8array \<Rightarrow> byte list" where
  "elems a = take (alength a) (drop (byteOffset a) (backing a))"

definition wholeArray :: "byte list \<Rightarrow> u8array" where
  "wholeArray bs = \<lparr>backing = bs, byteOffset = 0, alength = length bs\<rparr>"

definition emptyArray :: u8array where
  "emptyArray = wholeArray []"

text \<open>A relative index of \<open>subarray\<close>: negative counts from the end, and it is clamped.\<close>

definition relIndex :: "nat \<Rightarrow> int \<Rightarrow> nat" where
  "relIndex len i = (if i < 0 then nat (max (int len + i) 0) else nat (min i (int len)))"

definition subarray :: "u8array \<Rightarrow> int \<Rightarrow> int option \<Rightarrow> u8array" where
  "subarray a begin endArg =
     (let beginIndex = relIndex (alength a) begin;
          endIndex = (case endArg of None \<Rightarrow> alength a | Some en \<Rightarrow> relIndex (alength a) en)
      in \<lparr>backing = backing a, byteOffset = byteOffset a + beginIndex,
          alength = endIndex - beginIndex\<rparr>)"

definition concatTypedArray :: "u8array \<Rightarrow> u8array \<Rightarrow> u8array" where
  "concatTypedArray remaining data =
     (if alength remaining = 0 then data else wholeArray (elems remaining @ elems data))"

subsection \<open>The scanner\<close>

record isoBoxSearchInfo =
  lastCompletedOffset :: int
  found :: bool
  size' :: "int option"

text \<open>
  \<open>data[i]\<close> under a shift or a bitwise or: the byte as a 32-bit integer, and 0 where
  the index is outside the array (\<open>undefined\<close>).
\<close>

definition int32At :: "byte list \<Rightarrow> int \<Rightarrow> 32 word" where
  "int32At data i = (if 0 \<le> i \<and> i < int (length data) then ucast (data ! nat i) else 0)"

text \<open>
  \<open>parseUint32\<close>. Each operand of \<open>|\<close> is an unsigned 32-bit value, but \<open>|\<close> itself
  yields a signed 32-bit integer: the result is the two's complement reading of the four
  bytes.
\<close>

definition parseUint32 :: "byte list \<Rightarrow> int \<Rightarrow> int" where
  "parseUint32 data offset =
     sint (int32At data (offset + 3)
           OR push_bit 8 (int32At data (offset + 2))
           OR push_bit 16 (int32At data (offset + 1))
           OR push_bit 24 (int32At data offset))"

text \<open>\<open>String.fromCharCode(data[i])\<close>: the character of code 0 outside the array.\<close>

definition charAt :: "byte list \<Rightarrow> int \<Rightarrow> char" where
  "charAt data i =
     (if 0 \<le> i \<and> i < int (length data) then char_of (unat (data ! nat i)) else char_of (0 :: nat))"

definition parseIsoBoxType :: "byte list \<Rightarrow> int \<Rightarrow> string" where
  "parseIsoBoxType data offset =
     [charAt data offset, charAt data (offset + 1), charAt data (offset + 2),
      charAt data (offset + 3)]"

text \<open>
  The \<open>while\<close> loop of \<open>findLastTopIsoBoxCompleted\<close> on its three variables. It is a
  partial function: \<open>None\<close> is a loop that does not end.
\<close>

partial_function (option) scanLoop ::
  "string list \<Rightarrow> byte list \<Rightarrow> int \<Rightarrow> isoBoxSearchInfo option \<Rightarrow> int \<Rightarrow>
     (isoBoxSearchInfo option \<times> int) option" where
  "scanLoop types data offset boxInfo lastCompleted =
     (if offset < int (length data)
      then
        let boxSize = parseUint32 data offset;
            boxType = parseIsoBoxType data (offset + 4)
        in if boxSize = 0 then Some (boxInfo, lastCompleted)
           else if offset + boxSize \<le> int (length data)
           then if boxType \<in> set types
                then scanLoop types data (offset + boxSize)
                       (Some \<lparr>lastCompletedOffset = offset, found = True, size' = Some boxSize\<rparr>)
                       lastCompleted
                else scanLoop types data (offset + boxSize) boxInfo (offset + boxSize)
           else scanLoop types data (offset + boxSize) boxInfo lastCompleted
      else Some (boxInfo, lastCompleted))"

definition findLastTopIsoBoxCompleted ::
  "string list \<Rightarrow> byte list \<Rightarrow> int option \<Rightarrow> isoBoxSearchInfo option" where
  "findLastTopIsoBoxCompleted types buffer offsetArg =
     (let offset = (case offsetArg of None \<Rightarrow> 0 | Some n \<Rightarrow> n)
      in if offset + 8 \<ge> int (length buffer)
         then Some \<lparr>lastCompletedOffset = 0, found = False, size' = None\<rparr>
         else
           (case scanLoop types buffer offset None 0 of
              None \<Rightarrow> None
            | Some (boxInfo, lastCompleted) \<Rightarrow>
                (case boxInfo of
                   None \<Rightarrow> Some \<lparr>lastCompletedOffset = lastCompleted, found = False, size' = None\<rparr>
                 | Some info \<Rightarrow> Some info)))"

subsection \<open>One fetch\<close>

text \<open>
  A track found in the initialization section, and \<open>segment.map\<close> as the transport
  uses it: the bytes, and the tracks by type once the section has been probed.
\<close>

record track =
  trk_type :: string
  trk_codec :: "string option"

record fetchMap =
  fm_bytes :: "byte list option"
  fm_tracks :: "(string \<Rightarrow> track option) option"

text \<open>
  The functions of other packages that the transport calls: \<open>detectContainerForBytes\<close>,
  \<open>mp4probe.tracks\<close> and \<open>mp4probe.startTime\<close>.
\<close>

record probes =
  detectContainerForBytes :: "byte list \<Rightarrow> string"
  probeTracks :: "byte list \<Rightarrow> track list"
  probeStartTime :: "byte list \<Rightarrow> real"

text \<open>The calls of the five callbacks that \<open>audioSegmentFetch\<close> is given.\<close>

datatype callback =
    TrackInfoFn trackInfo
  | TimingInfoFn mediaType string real
  | ChunkFn "byte list" mediaType bool
  | DataFn "byte list" mediaType
  | DoneFn

text \<open>
  The variables of one call of \<open>audioSegmentFetch\<close>, the module's flag
  \<open>segmentTrackAndTimingInfoHandled\<close>, the segment's map, and the callbacks called so
  far.
\<close>

record fetchState =
  remaining :: u8array
  offset :: int
  firstChunkReceiveTime :: real
  firstChunkFlag :: bool
  segmentDone :: bool
  needInit :: bool
  initRcvd :: bool
  segmentTrackAndTimingInfoHandled :: bool
  segmentMap :: "fetchMap option"
  calls :: "callback list"

definition truthyCodec :: "track option \<Rightarrow> string \<Rightarrow> string option" where
  "truthyCodec t encrypted =
     (case t of
        None \<Rightarrow> None
      | Some tr \<Rightarrow>
          (case trk_codec tr of
             None \<Rightarrow> None
           | Some c \<Rightarrow> if c \<noteq> [] \<and> c \<noteq> encrypted then Some c else None))"

definition handleSegmentBytes ::
  "probes \<Rightarrow> byte list \<Rightarrow> bool \<Rightarrow> bool \<Rightarrow> fetchState \<Rightarrow> jsError + fetchState" where
  "handleSegmentBytes pr bytes segmentDoneArg firstChunkFlagArg st =
     (case segmentMap st of
        None \<Rightarrow> Inl TypeError
      | Some m \<Rightarrow>
          if bytes \<noteq> [] \<and> \<not> segmentDoneArg
          then
            (case fm_tracks m of
               None \<Rightarrow> Inl TypeError
             | Some tracks \<Rightarrow>
                 let trackInfo =
                       \<lparr>ti_isFmp4 = True,
                        ti_hasVideo = (tracks ''video'' \<noteq> None),
                        ti_hasAudio = (tracks ''audio'' \<noteq> None),
                        ti_audioCodec = truthyCodec (tracks ''audio'') ''enca'',
                        ti_videoCodec = truthyCodec (tracks ''video'') ''encv'',
                        ti_isMuxed = (tracks ''video'' \<noteq> None \<and> tracks ''audio'' \<noteq> None)\<rparr>;
                     timingInfo = probeStartTime pr bytes
                 in Inr (st\<lparr>segmentTrackAndTimingInfoHandled := True,
                           calls := calls st
                             @ [TrackInfoFn trackInfo]
                             @ (if ti_hasAudio trackInfo \<and> \<not> ti_isMuxed trackInfo
                                then [TimingInfoFn Audio ''start'' timingInfo] else [])
                             @ (if ti_hasVideo trackInfo
                                then [TimingInfoFn Video ''start'' timingInfo] else [])
                             @ [ChunkFn bytes (if tracks ''audio'' \<noteq> None then Audio else Video)
                                  firstChunkFlagArg]\<rparr>))
          else if segmentTrackAndTimingInfoHandled st
          then
            (case fm_tracks m of
               None \<Rightarrow> Inl TypeError
             | Some tracks \<Rightarrow>
                 Inr (st\<lparr>calls := calls st
                        @ [DataFn bytes (if tracks ''audio'' \<noteq> None then Audio else Video),
                           DoneFn]\<rparr>))
          else Inr st)"

definition waitForCompletion ::
  "probes \<Rightarrow> byte list \<Rightarrow> fetchState \<Rightarrow> jsError + fetchState" where
  "waitForCompletion pr responseBuffer st =
     (if firstChunkReceiveTime st > 0 \<and> ((needInit st \<and> initRcvd st) \<or> \<not> needInit st)
      then handleSegmentBytes pr responseBuffer (segmentDone st) (firstChunkFlag st) st
      else Inr st)"

text \<open>
  \<open>handleInitSegmentResponse\<close>: stores the bytes, and for an MP4 container the
  tracks, the first of each type.
\<close>

definition addTrack :: "(string \<Rightarrow> track option) \<Rightarrow> track \<Rightarrow> (string \<Rightarrow> track option)" where
  "addTrack tracks t = (if tracks (trk_type t) \<noteq> None then tracks else tracks(trk_type t := Some t))"

definition handleInitSegmentResponse ::
  "probes \<Rightarrow> byte list \<Rightarrow> fetchState \<Rightarrow> jsError + fetchState" where
  "handleInitSegmentResponse pr responseBuffer st =
     (case segmentMap st of
        None \<Rightarrow> Inl TypeError
      | Some m \<Rightarrow>
          let m = m\<lparr>fm_bytes := Some responseBuffer\<rparr>;
              st = st\<lparr>segmentMap := Some m\<rparr>
          in if detectContainerForBytes pr responseBuffer \<noteq> ''mp4'' then Inr st
             else
               let found = probeTracks pr responseBuffer;
                   m = (if found = [] then m
                        else m\<lparr>fm_tracks :=
                               Some (foldl addTrack
                                       (case fm_tracks m of None \<Rightarrow> (\<lambda>ty. None) | Some ts \<Rightarrow> ts)
                                       found)\<rparr>)
               in waitForCompletion pr responseBuffer (st\<lparr>segmentMap := Some m\<rparr>))"

definition handleMediaDataResponse ::
  "probes \<Rightarrow> byte list \<Rightarrow> fetchState \<Rightarrow> jsError + fetchState" where
  "handleMediaDataResponse pr responseBuffer st = waitForCompletion pr responseBuffer st"

text \<open>
  What the network delivers to one fetch: the response to the request for the
  initialization section (with its status), a read of the body of the segment at a
  time of the clock (\<open>Date.now()\<close>), and the end of the body. A read's value is an
  array that spans its buffer.
\<close>

datatype fetchEvent =
    InitLoaded nat "byte list"
  | Read real "byte list"
  | ReadDone

datatype fetchError = Threw jsError | InitStatusError nat

text \<open>
  \<open>processMediaSegmentData\<close> for a read with a value. \<open>None\<close>: the scanner does
  not return. A search result that is found has a size; without one the end would be
  \<open>NaN\<close>, which \<open>subarray\<close> reads as 0.
\<close>

definition processMediaSegmentData ::
  "probes \<Rightarrow> real \<Rightarrow> byte list \<Rightarrow> fetchState \<Rightarrow> (jsError + fetchState) option" where
  "processMediaSegmentData pr now value st =
     (if value = [] then Some (Inr st)
      else
        let rem = concatTypedArray (remaining st) (wholeArray value);
            st = st\<lparr>remaining := rem\<rparr>
        in case findLastTopIsoBoxCompleted [''mdat''] (elems rem) (Some (offset st)) of
             None \<Rightarrow> None
           | Some boxesInfo \<Rightarrow>
               if found boxesInfo
               then
                 let (data, rem) =
                       (case size' boxesInfo of
                          None \<Rightarrow> (wholeArray (elems (subarray rem 0 (Some 0))), subarray rem 0 None)
                        | Some boxSize \<Rightarrow>
                            let end = lastCompletedOffset boxesInfo + boxSize
                            in if end = int (alength rem) then (rem, emptyArray)
                               else (wholeArray (elems (subarray rem 0 (Some end))),
                                     subarray rem end None));
                     st = st\<lparr>remaining := rem, segmentDone := False\<rparr>;
                     st = (if firstChunkReceiveTime st = 0
                           then st\<lparr>firstChunkReceiveTime := now, firstChunkFlag := True\<rparr>
                           else st\<lparr>firstChunkFlag := False\<rparr>)
                 in Some (case handleMediaDataResponse pr (backing data) st of
                            Inl err \<Rightarrow> Inl err
                          | Inr st \<Rightarrow> Inr (st\<lparr>offset := 0\<rparr>))
               else Some (Inr (st\<lparr>offset := lastCompletedOffset boxesInfo\<rparr>)))"

definition fetchStep ::
  "probes \<Rightarrow> fetchEvent \<Rightarrow> fetchState \<Rightarrow> (fetchError + fetchState) option" where
  "fetchStep pr ev st =
     (case ev of
        InitLoaded status response \<Rightarrow>
          if 200 \<le> status \<and> status < 300
          then (case handleInitSegmentResponse pr response (st\<lparr>initRcvd := True\<rparr>) of
                  Inl err \<Rightarrow> Some (Inl (Threw err))
                | Inr st \<Rightarrow> Some (Inr st))
          else Some (Inl (InitStatusError status))
      | Read now value \<Rightarrow>
          (case processMediaSegmentData pr now value st of
             None \<Rightarrow> None
           | Some (Inl err) \<Rightarrow> Some (Inl (Threw err))
           | Some (Inr st) \<Rightarrow> Some (Inr st))
      | ReadDone \<Rightarrow>
          (case handleMediaDataResponse pr (backing (remaining st)) (st\<lparr>segmentDone := True\<rparr>) of
             Inl err \<Rightarrow> Some (Inl (Threw err))
           | Inr st \<Rightarrow> Some (Inr st)))"

fun fetchRun :: "probes \<Rightarrow> fetchEvent list \<Rightarrow> fetchState \<Rightarrow> (fetchError + fetchState) option" where
  "fetchRun pr [] st = Some (Inr st)"
| "fetchRun pr (ev # evs) st =
     (case fetchStep pr ev st of
        None \<Rightarrow> None
      | Some (Inl err) \<Rightarrow> Some (Inl err)
      | Some (Inr st') \<Rightarrow> fetchRun pr evs st')"

text \<open>
  The state in which \<open>audioSegmentFetch\<close> starts: it clears the module's flag, and the
  initialization section is requested when the segment has a map without bytes.
\<close>

definition audioSegmentFetch :: "fetchMap option \<Rightarrow> fetchState" where
  "audioSegmentFetch m =
     \<lparr>remaining = emptyArray, offset = 0, firstChunkReceiveTime = 0, firstChunkFlag = False,
      segmentDone = False,
      needInit = (case m of None \<Rightarrow> False | Some fm \<Rightarrow> fm_bytes fm = None),
      initRcvd = False, segmentTrackAndTimingInfoHandled = False, segmentMap = m, calls = []\<rparr>"

definition chunksOf :: "callback list \<Rightarrow> byte list list" where
  "chunksOf cs = concat (map (\<lambda>c. case c of ChunkFn bytes ty first \<Rightarrow> [bytes] | _ \<Rightarrow> []) cs)"

definition trackInfoCalls :: "callback list \<Rightarrow> nat" where
  "trackInfoCalls cs = length (filter (\<lambda>c. case c of TrackInfoFn ti \<Rightarrow> True | _ \<Rightarrow> False) cs)"

definition timingInfoCalls :: "callback list \<Rightarrow> nat" where
  "timingInfoCalls cs =
     length (filter (\<lambda>c. case c of TimingInfoFn ty tt t \<Rightarrow> True | _ \<Rightarrow> False) cs)"

text \<open>
  Sample streams. \<open>cycleBuffer\<close>: a box of 8 bytes followed by a box whose size field
  is \<open>FF FF FF F8\<close>. \<open>fragment n\<close>: a \<open>moof\<close> box of 8 bytes and an \<open>mdat\<close> box of 9
  bytes whose payload is the byte \<open>n\<close>.
\<close>

definition cycleBuffer :: "byte list" where
  "cycleBuffer =
     [0, 0, 0, 8, 0x66, 0x72, 0x65, 0x65, 0xFF, 0xFF, 0xFF, 0xF8, 0x66, 0x72, 0x65, 0x65]"

definition fragment :: "byte \<Rightarrow> byte list" where
  "fragment n =
     [0, 0, 0, 8, 0x6D, 0x6F, 0x6F, 0x66, 0, 0, 0, 9, 0x6D, 0x64, 0x61, 0x74, n]"

definition sampleProbes :: probes where
  "sampleProbes =
     \<lparr>detectContainerForBytes = (\<lambda>bytes. ''mp4''),
      probeTracks = (\<lambda>bytes. [\<lparr>trk_type = ''audio'', trk_codec = Some ''mp4a.40.2''\<rparr>]),
      probeStartTime = (\<lambda>bytes. 0)\<rparr>"

definition sampleFetchMap :: fetchMap where
  "sampleFetchMap =
     \<lparr>fm_bytes = Some [1, 2],
      fm_tracks = Some ((\<lambda>ty. None)(''audio'' := Some \<lparr>trk_type = ''audio'',
                                                       trk_codec = Some ''mp4a.40.2''\<rparr>))\<rparr>"

subsection \<open>Notions for the properties of the transport\<close>








section \<open>Properties\<close>

lemma safeBackBufferTrimTime_le_maxTrimTime:
  "safeBackBufferTrimTime b seekable currentTime targetDuration \<le> currentTime - targetDuration"
  by (simp add: safeBackBufferTrimTime_def Let_def)

subsection \<open>Frame lemmas\<close>

lemma monitorBuffer_frame:
  "state (monitorBuffer_' e l) = state l"
  "pendingSegment_' (monitorBuffer_' e l) = pendingSegment_' l"
  "callQueue_' (monitorBuffer_' e l) = callQueue_' l"
  "loadQueue_' (monitorBuffer_' e l) = loadQueue_' l"
  "metadataQueue_id3 (monitorBuffer_' e l) = metadataQueue_id3 l"
  "metadataQueue_caption (monitorBuffer_' e l) = metadataQueue_caption l"
  "timelineChangeController_' (monitorBuffer_' e l) = timelineChangeController_' l"
  "mediaIndex (monitorBuffer_' e l) = mediaIndex l"
  "throughput_rate (monitorBuffer_' e l) = throughput_rate l"
  "throughput_count (monitorBuffer_' e l) = throughput_count l"
  by (simp_all add: monitorBuffer_'_def clearCheckBufferTimeout_def Let_def split: option.splits)

lemma monitorBuffer_effects:
  "set (effects l) \<subseteq> set (effects (monitorBuffer_' e l))"
  by (auto simp add: monitorBuffer_'_def clearCheckBufferTimeout_def Let_def split: option.splits)

lemma setState_frame:
  "state (setState s l) = s"
  "pendingSegment_' (setState s l) = pendingSegment_' l"
  "callQueue_' (setState s l) = callQueue_' l"
  "loadQueue_' (setState s l) = loadQueue_' l"
  "metadataQueue_id3 (setState s l) = metadataQueue_id3 l"
  "metadataQueue_caption (setState s l) = metadataQueue_caption l"
  "timelineChangeController_' (setState s l) = timelineChangeController_' l"
  "mediaIndex (setState s l) = mediaIndex l"
  "throughput_rate (setState s l) = throughput_rate l"
  "throughput_count (setState s l) = throughput_count l"
  by (simp_all add: setState_def trigger_def)

lemma setState_effects: "set (effects l) \<subseteq> set (effects (setState s l))"
  by (auto simp add: setState_def trigger_def)

lemma abort_'_fields:
  "state (abort_' l) = state l"
  "pendingSegment_' (abort_' l) = None"
  "callQueue_' (abort_' l) = []"
  "loadQueue_' (abort_' l) = []"
  "metadataQueue_id3 (abort_' l) = []"
  "metadataQueue_caption (abort_' l) = []"
  "pendingTimelineChange (timelineChangeController_' (abort_' l)) (loaderType_' l) = None"
  by (simp_all add: abort_'_def clearPendingTimelineChange_def Let_def split: option.splits)

lemma abort_'_cancels:
  "pendingSegment_' l = Some segmentInfo \<Longrightarrow> si_abortRequests segmentInfo = Some h
   \<Longrightarrow> AbortRequests h \<in> set (effects (abort_' l))"
  by (simp add: abort_'_def Let_def)

lemma abort_waiting:
  "state l = WAITING \<Longrightarrow>
   abort e l = (if \<not> paused (setState READY (abort_' l))
                then monitorBuffer_' e (setState READY (abort_' l))
                else setState READY (abort_' l))"
  by (simp add: abort_def Let_def)

subsection \<open>Abort\<close>

text \<open>
  Claim C9. \<open>abort()\<close> on a loader in state \<open>WAITING\<close> leaves it in state \<open>READY\<close>
  with no pending segment, with the call queue, the load queue and both metadata queues
  empty and with no pending timeline change recorded for its loader type; and when the
  pending segment carried the function that cancels its network requests, that function
  has been called.
\<close>

theorem abort_while_waiting:
  assumes "state l = WAITING"
  shows "state (abort e l) = READY
       \<and> pendingSegment_' (abort e l) = None
       \<and> callQueue_' (abort e l) = [] \<and> loadQueue_' (abort e l) = []
       \<and> metadataQueue_id3 (abort e l) = [] \<and> metadataQueue_caption (abort e l) = []
       \<and> pendingTimelineChange (timelineChangeController_' (abort e l)) (loaderType_' l) = None
       \<and> (\<forall>segmentInfo h.
             pendingSegment_' l = Some segmentInfo \<and> si_abortRequests segmentInfo = Some h
             \<longrightarrow> AbortRequests h \<in> set (effects (abort e l)))"
proof -
  have cancel: "AbortRequests h \<in> set (effects (abort e l))"
    if "pendingSegment_' l = Some segmentInfo" "si_abortRequests segmentInfo = Some h"
    for segmentInfo h
  proof -
    have "AbortRequests h \<in> set (effects (setState READY (abort_' l)))"
      using abort_'_cancels [OF that] setState_effects by blast
    then show ?thesis
      using monitorBuffer_effects by (auto simp add: abort_waiting [OF assms])
  qed
  show ?thesis
    using cancel
    by (simp add: abort_waiting [OF assms] monitorBuffer_frame setState_frame abort_'_fields)
qed

theorem abort_while_waiting_witness:
  "state (bootstrapAudioLoader newTimelineChangeController) = WAITING
   \<and> state (abort sampleEnv (bootstrapAudioLoader newTimelineChangeController)) = READY
   \<and> pendingSegment_' (abort sampleEnv (bootstrapAudioLoader newTimelineChangeController)) = None
   \<and> AbortRequests 3
       \<in> set (effects (abort sampleEnv (bootstrapAudioLoader newTimelineChangeController)))"
  using abort_while_waiting [of "bootstrapAudioLoader newTimelineChangeController" sampleEnv]
  by (simp add: bootstrapAudioLoader_def newSegmentLoader_def sampleSegmentInfo_def)









subsection \<open>Back-buffer trim time\<close>

lemma trimBackBuffer_removes_up_to_trim_time:
  "playlist_' l = Some p \<Longrightarrow> pl_targetDuration p = Some d \<Longrightarrow> d \<noteq> 0 \<Longrightarrow>
   trimBackBuffer_' b e l =
     Inr (if safeBackBufferTrimTime b (seekable_' e) (currentTime_' e) d > 0
          then remove e 0 (Some (safeBackBufferTrimTime b (seekable_' e) (currentTime_' e) d)) l
          else l)"
  by (simp add: trimBackBuffer_'_def Let_def)

text \<open>
  Claim C6, as amended. The trim time is at most \<open>currentTime - targetDuration\<close>
  for every seekable range, current time and target duration. When a seekable window
  exists, the trim time is at least the start of the window exactly when that start is
  itself at most \<open>currentTime - targetDuration\<close>; otherwise the trim time is
  \<open>currentTime - targetDuration\<close>, below the start of the window.
\<close>

theorem safeBackBufferTrimTime_bounds:
  "safeBackBufferTrimTime b seekable currentTime targetDuration \<le> currentTime - targetDuration
   \<and> (seekable \<noteq> [] \<longrightarrow>
        (fst (hd seekable) \<le> safeBackBufferTrimTime b seekable currentTime targetDuration)
        = (fst (hd seekable) \<le> currentTime - targetDuration))"
  by (cases seekable) (auto simp add: safeBackBufferTrimTime_def Let_def)

theorem safeBackBufferTrimTime_bounds_witness:
  "safeBackBufferTrimTime 30 [(100, 200)] 150 10 \<le> 150 - 10
   \<and> (100 \<le> safeBackBufferTrimTime 30 [(100, 200)] 150 10)"
  using safeBackBufferTrimTime_bounds [of 30 "[(100, 200)]" 150 10] by simp

text \<open>
  The claim as stated fails when the player is at the start of the seekable window:
  with the window \<open>[100, 200]\<close>, the current time 100 and a target duration of 10 the
  trim time is 90, below the start of the window.
\<close>

theorem safeBackBufferTrimTime_below_seekable_start:
  "[(100, 200)] \<noteq> ([] :: timeRanges)
   \<and> safeBackBufferTrimTime 30 [(100, 200)] 100 10 = 90
   \<and> \<not> (fst (hd [(100, 200)]) \<le> safeBackBufferTrimTime 30 [(100, 200)] 100 10)"
  by (simp add: safeBackBufferTrimTime_def)

subsection \<open>Throughput\<close>















subsection \<open>The cross-loader timeline rule\<close>







subsection \<open>Playlist refresh\<close>

text \<open>
  Claim C5. When \<open>playlist\<close> is called with a playlist of the same uri as the current
  one, the loader's media index (when it has one) and the media index of the pending
  segment (when there is one) are shifted by exactly the difference \<open>d\<close> of the new and
  the old media sequence: the new index is the old one minus \<open>d\<close>. After the
  \<open>syncinfoupdate\<close> event the old and the new playlist are passed to
  \<open>saveExpiredSegmentInfo\<close> of the synchronization controller. The hypothesis on the
  state leaves out a loader that is still in \<open>INIT\<close>, has a playlist and is not paused:
  \<open>load\<close> and \<open>playlist\<close> take the loader out of \<open>INIT\<close> as soon as it has a
  playlist and is not paused.
\<close>

theorem playlist_refresh_rebases_indices:
  assumes "playlist_' l = Some old"
    and "pl_uri old = pl_uri new"
    and "state l = INIT \<longrightarrow> paused l"
  shows "mediaIndex (playlist e (Some new) l)
           = map_option (\<lambda>i. i - (pl_mediaSequence new - pl_mediaSequence old)) (mediaIndex l)
       \<and> map_option si_mediaIndex (pendingSegment_' (playlist e (Some new) l))
           = map_option (\<lambda>si. si_mediaIndex si - (pl_mediaSequence new - pl_mediaSequence old))
               (pendingSegment_' l)
       \<and> (\<exists>new'. playlist_' (playlist e (Some new) l) = Some new'
             \<and> pl_mediaSequence new' = pl_mediaSequence new
             \<and> effects (playlist e (Some new) l)
                 = effects l @ [Trigger ''syncinfoupdate'', SaveExpiredSegmentInfo old new'])"
  using assms
  by (cases "mediaIndex l"; cases "pendingSegment_' l")
     (simp_all add: playlist_def Let_def trigger_def couldBeginLoading_'_def paused_def)

theorem playlist_refresh_rebases_indices_witness:
  "playlist_' waitingLoader = Some samplePlaylist
   \<and> mediaIndex (playlist sampleEnv (Some (samplePlaylist\<lparr>pl_mediaSequence := 1\<rparr>)) waitingLoader)
       = Some 0
   \<and> map_option si_mediaIndex
        (pendingSegment_'
           (playlist sampleEnv (Some (samplePlaylist\<lparr>pl_mediaSequence := 1\<rparr>)) waitingLoader))
       = Some 1"
  using playlist_refresh_rebases_indices
          [of waitingLoader samplePlaylist "samplePlaylist\<lparr>pl_mediaSequence := 1\<rparr>" sampleEnv]
  by (simp add: waitingLoader_def readyLoader_def newSegmentLoader_def samplePlaylist_def
        sampleSegmentInfo_def)

subsection \<open>The next segment to request\<close>

text \<open>
  Claim C2 at an input where the code departs from it. The player of the sample has
  played, is at 10 seconds and has \<open>[0, 16]\<close> buffered, so the buffered lookahead of 6
  seconds reaches the goal buffer length of 6; \<open>checkBuffer_\<close> still returns a request,
  for the segment at index 2.
\<close>

theorem checkBuffer_requests_with_full_buffer:
  "goalBufferLength_' sampleEnv \<le> max 0 (snd (last [(0, 16)]) - currentTime_' sampleEnv)
   \<and> map_option si_mediaIndex
        (checkBuffer_' sampleEnv readyLoader [(0, 16)] samplePlaylist (mediaIndex readyLoader)
           (hasPlayed_' sampleEnv) (currentTime_' sampleEnv) (syncPoint_' readyLoader))
       = Some 2"
  by (simp add: checkBuffer_'_def generateSegmentInfo_'_def nth_opt_def readyLoader_def
        newSegmentLoader_def samplePlaylist_def sampleEnv_def sampleSegment_def Let_def)

subsection \<open>Initialization segments\<close>
















subsection \<open>The scanner and the transport\<close>

lemma wholeArray_simps:
  "elems (wholeArray bs) = bs" "alength (wholeArray bs) = length bs" "backing (wholeArray bs) = bs"
  "alength emptyArray = 0" "elems emptyArray = []"
  by (simp_all add: elems_def wholeArray_def emptyArray_def)


lemma relIndex_in_range: "0 \<le> i \<Longrightarrow> i \<le> int n \<Longrightarrow> relIndex n i = nat i"
  by (simp add: relIndex_def)







lemma chunksOf_append: "chunksOf (xs @ ys) = chunksOf xs @ chunksOf ys"
  by (simp add: chunksOf_def)




text \<open>
  The scan returns when the sizes it reads are not negative. \<open>V\<close> is any set of offsets
  that holds the offset at which the scan starts and, with each offset inside the data
  whose size field is not negative, the offset behind that box.
\<close>

lemma scanLoop_returns:
  assumes "off \<in> V"
    and "\<forall>i\<in>V. i < int (length data)
           \<longrightarrow> 0 \<le> parseUint32 data i \<and> i + parseUint32 data i \<in> V"
  shows "\<exists>y. scanLoop types data off boxInfo lastCompleted = Some y"
  using assms(1)
proof (induction "nat (int (length data) - off)" arbitrary: off boxInfo lastCompleted
         rule: less_induct)
  case less
  show ?case
  proof (cases "off < int (length data)")
    case False
    then show ?thesis by (subst scanLoop.simps) simp
  next
    case True
    with less.prems assms(2)
    have nonneg: "0 \<le> parseUint32 data off" and later: "off + parseUint32 data off \<in> V"
      by blast+
    show ?thesis
    proof (cases "parseUint32 data off = 0")
      case True
      then show ?thesis by (subst scanLoop.simps) simp
    next
      case False
      with nonneg have pos: "0 < parseUint32 data off" by simp
      let ?next = "off + parseUint32 data off"
      from pos True have smaller: "nat (int (length data) - ?next) < nat (int (length data) - off)"
        by simp
      have step: "\<exists>y. scanLoop types data ?next bi lc = Some y" for bi lc
        using less.hyps [OF smaller later] .
      show ?thesis
        using step False by (subst scanLoop.simps) (simp add: Let_def)
    qed
  qed
qed

lemma findLastTopIsoBoxCompleted_returns:
  assumes "(case off of None \<Rightarrow> 0 | Some n \<Rightarrow> n) \<in> V"
    and "\<forall>i\<in>V. i < int (length data)
           \<longrightarrow> 0 \<le> parseUint32 data i \<and> i + parseUint32 data i \<in> V"
  shows "findLastTopIsoBoxCompleted types data off \<noteq> None"
proof -
  from scanLoop_returns [OF assms] obtain y where
    "scanLoop types data (case off of None \<Rightarrow> 0 | Some n \<Rightarrow> n) None 0 = Some y"
    by blast
  then show ?thesis
    by (simp add: findLastTopIsoBoxCompleted_def Let_def split: option.splits prod.splits)
qed


lemma fragment_scan:
  "findLastTopIsoBoxCompleted [''mdat''] (fragment n) (Some 0)
     = Some \<lparr>lastCompletedOffset = 8, found = True, size' = Some 9\<rparr>"
  by (simp add: findLastTopIsoBoxCompleted_def scanLoop.simps fragment_def parseUint32_def
        int32At_def parseIsoBoxType_def charAt_def char_of_def bit_Suc_0_iff Let_def)

lemma fragment_length: "length (fragment n) = 17" "fragment n \<noteq> []"
  by (simp_all add: fragment_def)


lemmas fetch_eval = processMediaSegmentData_def wholeArray_simps audioSegmentFetch_def
  concatTypedArray_def handleMediaDataResponse_def waitForCompletion_def handleSegmentBytes_def
  sampleFetchMap_def sampleProbes_def truthyCodec_def








text \<open>
  Claim C4 at an input where the code departs from it. A fetch whose initialization
  section is loaded and has one audio track reads two fragments, one per read. Both
  are emitted as chunks, and the track info and the timing info are emitted twice, once
  with each chunk: the test of \<open>segmentTrackAndTimingInfoHandled\<close> that is to make
  this happen once is commented out in \<open>handleSegmentBytes\<close>.
\<close>

theorem track_info_emitted_for_every_chunk:
  "(case fetchRun sampleProbes [Read 1000 (fragment 1), Read 1010 (fragment 2)]
           (audioSegmentFetch (Some sampleFetchMap)) of
      Some (Inr st) \<Rightarrow>
        chunksOf (calls st) = [fragment 1, fragment 2]
        \<and> trackInfoCalls (calls st) = 2 \<and> timingInfoCalls (calls st) = 2
    | _ \<Rightarrow> False)"
  by (simp add: fetchStep_def fragment_scan fragment_length fetch_eval
        chunksOf_def trackInfoCalls_def timingInfoCalls_def Let_def)

text \<open>
  The first box of \<open>cycleBuffer\<close> has size 8; the size field of the second,
  \<open>FF FF FF F8\<close>, is read as \<open>-8\<close>, since the bitwise or of \<open>parseUint32\<close> yields a
  signed integer. The scan goes from offset 0 to 8 and from 8 back to 0.
\<close>

lemma cycle_sizes:
  "parseUint32 cycleBuffer 0 = 8" "parseUint32 cycleBuffer 8 = - 8"
  by (simp_all add: parseUint32_def int32At_def cycleBuffer_def)

lemma cycle_types:
  "parseIsoBoxType cycleBuffer 4 = ''free''" "parseIsoBoxType cycleBuffer 12 = ''free''"
  by (simp_all add: parseIsoBoxType_def charAt_def cycleBuffer_def char_of_def bit_Suc_0_iff)

lemma cycle_length: "length cycleBuffer = 16"
  by (simp add: cycleBuffer_def)

lemma scanLoop_cycle:
  assumes "scanLoop types data off boxInfo lastCompleted = Some y"
  shows "\<not> (types = [''mdat''] \<and> data = cycleBuffer \<and> (off = 0 \<or> off = 8))"
proof (rule scanLoop.raw_induct
         [where P = "\<lambda>types data off boxInfo lastCompleted y.
                       \<not> (types = [''mdat''] \<and> data = cycleBuffer \<and> (off = 0 \<or> off = 8))",
          OF _ assms])
  fix f types data off boxInfo lastCompleted y
  assume IH: "\<And>types data off boxInfo lastCompleted y.
                f types data off boxInfo lastCompleted = Some y \<Longrightarrow>
                \<not> (types = [''mdat''] \<and> data = cycleBuffer \<and> (off = 0 \<or> off = 8))"
    and body: "(if off < int (length data)
      then
        let boxSize = parseUint32 data off;
            boxType = parseIsoBoxType data (off + 4)
        in if boxSize = 0 then Some (boxInfo, lastCompleted)
           else if off + boxSize \<le> int (length data)
           then if boxType \<in> set types
                then f types data (off + boxSize)
                       (Some \<lparr>lastCompletedOffset = off, found = True, size' = Some boxSize\<rparr>)
                       lastCompleted
                else f types data (off + boxSize) boxInfo (off + boxSize)
           else f types data (off + boxSize) boxInfo lastCompleted
      else Some (boxInfo, lastCompleted)) = Some y"
  show "\<not> (types = [''mdat''] \<and> data = cycleBuffer \<and> (off = 0 \<or> off = 8))"
  proof
    assume a: "types = [''mdat''] \<and> data = cycleBuffer \<and> (off = 0 \<or> off = 8)"
    then consider "off = 0" | "off = 8" by blast
    then show False
    proof cases
      case 1
      with a body have "f [''mdat''] cycleBuffer 8 boxInfo 8 = Some y"
        by (simp add: cycle_sizes cycle_types cycle_length)
      with IH show False by blast
    next
      case 2
      with a body have "f [''mdat''] cycleBuffer 0 boxInfo 0 = Some y"
        by (simp add: cycle_sizes cycle_types cycle_length)
      with IH show False by blast
    qed
  qed
qed

text \<open>
  A fragment whose payload byte is \<open>FF\<close>: the chain of its boxes is at the offsets 0
  and 8 and ends at 17.
\<close>

lemma fragment_chain:
  "\<forall>i\<in>{0, 8, 17}. i < int (length (fragment 255))
     \<longrightarrow> 0 \<le> parseUint32 (fragment 255) i \<and> i + parseUint32 (fragment 255) i \<in> {0, 8, 17}"
  by (simp add: fragment_def parseUint32_def int32At_def)

text \<open>
  Claim C10, for what holds of it and at an input where the code departs from it. The
  scan returns whenever no size read along the chain of boxes from its start offset is
  negative (\<open>V\<close> holds the start offset and, with each offset inside the buffer, the
  offset behind the box that starts there): each iteration then ends the scan or moves
  the offset forward. On \<open>cycleBuffer\<close> the second size reads \<open>-8\<close>, the offset
  moves back, and the scan never returns.
\<close>

theorem scanner_returns_unless_size_negative:
  "((case off of None \<Rightarrow> 0 | Some n \<Rightarrow> n) \<in> V
    \<and> (\<forall>i\<in>V. i < int (length data)
           \<longrightarrow> 0 \<le> parseUint32 data i \<and> i + parseUint32 data i \<in> V)
      \<longrightarrow> findLastTopIsoBoxCompleted types data off \<noteq> None)
   \<and> parseUint32 cycleBuffer 0 = 8 \<and> parseUint32 cycleBuffer 8 = - 8
   \<and> findLastTopIsoBoxCompleted [''mdat''] cycleBuffer None = None"
proof -
  have "findLastTopIsoBoxCompleted [''mdat''] cycleBuffer None = None"
  proof (cases "scanLoop [''mdat''] cycleBuffer 0 None 0")
    case None
    then show ?thesis by (simp add: findLastTopIsoBoxCompleted_def cycle_length)
  next
    case (Some y)
    then show ?thesis using scanLoop_cycle by blast
  qed
  then show ?thesis
    using findLastTopIsoBoxCompleted_returns [of off V data types] cycle_sizes by blast
qed

theorem scanner_returns_unless_size_negative_witness:
  "findLastTopIsoBoxCompleted [''mdat''] (fragment 255) None \<noteq> None"
  using scanner_returns_unless_size_negative
          [of None "{0, 8, 17}" "fragment 255" "[''mdat'']"] fragment_chain
  by simp

end
